theory Spec2Isabelle
  imports Complex_Main
begin

section \<open>Strings: the Python string operations the registries use\<close>

text \<open>
  Registry keys are Python \<^verbatim>\<open>str\<close> values, modelled as \<^typ>\<open>string\<close>. \<^verbatim>\<open>str.upper\<close> and
  \<^verbatim>\<open>str.lower\<close> are modelled on ASCII letters; every other character is left as it is.
\<close>

definition upper_char :: "char \<Rightarrow> char" where
  "upper_char c =
     (case map_of (zip ''abcdefghijklmnopqrstuvwxyz'' ''ABCDEFGHIJKLMNOPQRSTUVWXYZ'') c of
        None \<Rightarrow> c | Some u \<Rightarrow> u)"

definition lower_char :: "char \<Rightarrow> char" where
  "lower_char c =
     (case map_of (zip ''ABCDEFGHIJKLMNOPQRSTUVWXYZ'' ''abcdefghijklmnopqrstuvwxyz'') c of
        None \<Rightarrow> c | Some l \<Rightarrow> l)"

definition upper :: "string \<Rightarrow> string" where
  "upper s = map upper_char s"

definition lower :: "string \<Rightarrow> string" where
  "lower s = map lower_char s"

text \<open>\<^verbatim>\<open>str(key).split('-')[-1]\<close>: the part of the key after its last \<^verbatim>\<open>-\<close> (the whole key
  when it has none).\<close>

definition last_segment :: "string \<Rightarrow> string" where
  "last_segment s = rev (takeWhile (\<lambda>c. c \<noteq> CHR ''-'') (rev s))"

text \<open>\<^verbatim>\<open>os.path.join(a, b)\<close> on a POSIX system.\<close>

definition path_join :: "string \<Rightarrow> string \<Rightarrow> string" where
  "path_join a b =
     (if b \<noteq> [] \<and> hd b = CHR ''/'' then b
      else if a = [] \<or> last a = CHR ''/'' then a @ b
      else a @ ''/'' @ b)"

section \<open>Python values, the heap of dictionaries, and the process state\<close>

text \<open>
  A \<^verbatim>\<open>Date\<close> is given by its year, month and day and is compared by value. Fixings are
  Python floats; the registries only store and return them, so a real number stands for
  the float that was stored.
\<close>

datatype date = Date int int int

datatype pykey = KStr string | KDate date

datatype pyatom = AStr string | AInt int | AFloat real | ANone

text \<open>A Python \<^verbatim>\<open>dict\<close>: convention specs are keyed by strings, fixing series by dates.\<close>

type_synonym pydict = "pykey \<rightharpoonup> pyatom"

text \<open>
  The error kinds of the specification. \<open>UnknownIndexType\<close> is the \<^verbatim>\<open>KeyError\<close> raised at
  line 25, \<open>ConstructionError\<close> the \<^verbatim>\<open>Exception\<close> of line 33, \<open>MissingField\<close> the
  \<^verbatim>\<open>KeyError\<close> of \<^verbatim>\<open>value_['type']\<close>, \<open>MalformedRecord\<close> a CSV row that does not parse,
  \<open>PyTypeError\<close> a \<^verbatim>\<open>TypeError\<close> or \<^verbatim>\<open>AttributeError\<close> of the interpreter (an operation
  applied to an object that does not support it), and \<open>ExternalError\<close> an exception raised
  inside an external collaborator.
\<close>

datatype error =
    DuplicateKey | NotFound | UnknownIndexType | ConstructionError
  | MissingField | MalformedRecord | PyTypeError | ExternalError

text \<open>
  The objects a registry can hold. Dictionaries are mutable and live on the heap, so a
  value of dictionary type is a reference \<open>Ref a\<close>. Index objects (\<open>'i\<close>) and convention
  objects (\<open>'c\<close>) are built by external constructors and are opaque here. \<open>Func f\<close> is a
  convention constructor: called with the key and the remaining fields of the spec.
\<close>

datatype ('i, 'c) pyval =
    Atom pyatom
  | Ref nat
  | Index 'i
  | Conv 'c
  | Func "string \<Rightarrow> pydict \<Rightarrow> error + 'c"

text \<open>
  The process state. \<open>heap\<close> holds the dictionaries, addressed by position (allocation
  appends, so a new address is always fresh). \<open>stores\<close> gives the \<^verbatim>\<open>_map\<close> of the registry
  of each namespace. \<open>lookups\<close> is a ghost field: the arguments of the calls of
  \<^verbatim>\<open>DataConventionRegFunction().get\<close> made so far, newest first.
\<close>

record ('i, 'c) world =
  heap :: "pydict list"
  stores :: "string \<Rightarrow> string \<rightharpoonup> ('i, 'c) pyval"
  lookups :: "pyatom list"

definition heap_get :: "('i, 'c) world \<Rightarrow> nat \<Rightarrow> pydict option" where
  "heap_get w a = (if a < length (heap w) then Some (heap w ! a) else None)"

definition heap_set :: "nat \<Rightarrow> pydict \<Rightarrow> ('i, 'c) world \<Rightarrow> ('i, 'c) world" where
  "heap_set a d w = w\<lparr>heap := (heap w)[a := d]\<rparr>"

definition heap_new :: "pydict \<Rightarrow> ('i, 'c) world \<Rightarrow> nat \<times> ('i, 'c) world" where
  "heap_new d w = (length (heap w), w\<lparr>heap := heap w @ [d]\<rparr>)"

text \<open>The dictionary a value refers to, if it is one.\<close>

definition as_dict :: "('i, 'c) world \<Rightarrow> ('i, 'c) pyval \<Rightarrow> (nat \<times> pydict) option" where
  "as_dict w v =
     (case v of
        Ref a \<Rightarrow> (case heap_get w a of None \<Rightarrow> None | Some d \<Rightarrow> Some (a, d))
      | _ \<Rightarrow> None)"

text \<open>\<^verbatim>\<open>self._map[key] = value\<close> in the registry of namespace \<open>ns\<close>.\<close>

definition map_set :: "string \<Rightarrow> string \<Rightarrow> ('i, 'c) pyval \<Rightarrow> ('i, 'c) world \<Rightarrow> ('i, 'c) world" where
  "map_set ns key v w = w\<lparr>stores := (stores w)(ns := (stores w ns)(key \<mapsto> v))\<rparr>"

section \<open>The base class \<^verbatim>\<open>Registry\<close>\<close>

text \<open>
  Modelled from the spec: the base class \<^verbatim>\<open>Registry\<close> of \<^verbatim>\<open>fixedincomelib.utilities\<close>
  is not among the sources. Section 4.1 of the specification gives its contract:
  \<^verbatim>\<open>register(key, value)\<close> fails with DuplicateKey if the key exists and otherwise inserts
  the pair into the store (sections 4.2 and 4.5, step 2), \<^verbatim>\<open>get(key)\<close> fails with NotFound
  if the key is absent, \<^verbatim>\<open>erase(key)\<close> removes an entry and fails with NotFound if it is
  absent. A registry is a process-wide singleton scoped by its namespace string:
  constructing a registry with the same namespace gives the same underlying store. Hence
  the store of a registry is \<open>stores w ns\<close> for the namespace \<open>ns\<close> its class passes to
  \<^verbatim>\<open>super().__new__\<close>.
\<close>

definition base_register ::
  "string \<Rightarrow> string \<Rightarrow> ('i, 'c) pyval \<Rightarrow> ('i, 'c) world \<Rightarrow> (error + unit) \<times> ('i, 'c) world" where
  "base_register ns key v w =
     (if stores w ns key \<noteq> None then (Inl DuplicateKey, w)
      else (Inr (), map_set ns key v w))"

text \<open>Modelled from the spec: \<^verbatim>\<open>Registry.get\<close> (section 4.1), a lookup of the key as
  it is given; it fails with NotFound if the key is absent.\<close>

definition base_get :: "string \<Rightarrow> string \<Rightarrow> ('i, 'c) world \<Rightarrow> error + ('i, 'c) pyval" where
  "base_get ns key w = (case stores w ns key of None \<Rightarrow> Inl NotFound | Some v \<Rightarrow> Inr v)"

text \<open>Modelled from the spec: \<^verbatim>\<open>Registry.erase\<close> (section 4.1); it removes the entry and
  fails with NotFound if the key is absent.\<close>

definition base_erase ::
  "string \<Rightarrow> string \<Rightarrow> ('i, 'c) world \<Rightarrow> (error + unit) \<times> ('i, 'c) world" where
  "base_erase ns key w =
     (if stores w ns key = None then (Inl NotFound, w)
      else (Inr (), w\<lparr>stores := (stores w)(ns := (stores w ns)(key := None))\<rparr>))"

section \<open>External collaborators\<close>

text \<open>
  What \<^verbatim>\<open>getattr(ql, value)\<close> returns: an object that may be called with no argument
  (\<^verbatim>\<open>ql_object()\<close>) or with the period of a tenor (\<^verbatim>\<open>ql_object(Period(tenor))\<close>); either
  call may raise.
\<close>

record 'i ql_attr =
  call_noargs :: "error + 'i"
  call_period :: "string \<Rightarrow> error + 'i"

text \<open>
  The environment of the module: the QuantLib catalog (\<open>None\<close> is \<^verbatim>\<open>AttributeError\<close>),
  \<^verbatim>\<open>TermOrTerminationDate(tenor).is_term()\<close> (which may raise), the configured
  \<^verbatim>\<open>FIXING_SOURCE\<close> directory, the CSV files that exist (each as the rows
  \<^verbatim>\<open>csv.DictReader\<close> yields), \<^verbatim>\<open>strptime(_, '%Y-%m-%d')\<close> and \<^verbatim>\<open>float\<close> on strings.
\<close>

record 'i env =
  ql_getattr :: "string \<Rightarrow> 'i ql_attr option"
  is_term :: "string \<Rightarrow> error + bool"
  fixing_path :: string
  csv_files :: "string \<Rightarrow> (string \<rightharpoonup> string) list option"
  strptime :: "string \<Rightarrow> date option"
  float_of :: "string \<Rightarrow> real option"

section \<open>\<^verbatim>\<open>IndexRegistry\<close>\<close>

text \<open>
  Lines 18 to 34. The registry's namespace is \<^verbatim>\<open>'indices'\<close> (line 16). The value is the
  name of an index type, a string. The bare \<^verbatim>\<open>except\<close> of line 29 catches whatever the
  parameterless call raises; an exception raised inside the handler (by the classifier or
  by the construction with the tenor) leaves the function as it is.
\<close>

definition index_register ::
  "'i env \<Rightarrow> string \<Rightarrow> string \<Rightarrow> ('i, 'c) world \<Rightarrow> (error + unit) \<times> ('i, 'c) world" where
  "index_register env key value w =
     (case base_register ''indices'' key (Atom (AStr value)) w of
        (Inl e, w1) \<Rightarrow> (Inl e, w1)
      | (Inr _, w1) \<Rightarrow>
          (case ql_getattr env value of
             None \<Rightarrow> (Inl UnknownIndexType, w1)
           | Some ql_object \<Rightarrow>
               (case call_noargs ql_object of
                  Inr idx \<Rightarrow> (Inr (), map_set ''indices'' (upper key) (Index idx) w1)
                | Inl _ \<Rightarrow>
                    (let tenor = last_segment key in
                     case is_term env tenor of
                       Inl e \<Rightarrow> (Inl e, w1)
                     | Inr False \<Rightarrow> (Inl ConstructionError, w1)
                     | Inr True \<Rightarrow>
                         (case call_period ql_object tenor of
                            Inl e \<Rightarrow> (Inl e, w1)
                          | Inr idx \<Rightarrow> (Inr (), map_set ''indices'' key (Index idx) w1))))))"

text \<open>Lines 36 to 39.\<close>

definition index_get :: "string \<Rightarrow> ('i, 'c) world \<Rightarrow> error + ('i, 'c) pyval" where
  "index_get key w =
     (case stores w ''indices'' (upper key) of
        None \<Rightarrow> Inl NotFound
      | Some v \<Rightarrow> Inr v)"

section \<open>\<^verbatim>\<open>IndexFixingsManager\<close>\<close>

text \<open>\<^verbatim>\<open>self._map.setdefault(key, {})\<close> in the registry of namespace \<open>ns\<close>: the value under
  the key if there is one, else a new empty dictionary that is stored under it.\<close>

definition setdefault_dict ::
  "string \<Rightarrow> string \<Rightarrow> ('i, 'c) world \<Rightarrow> ('i, 'c) pyval \<times> ('i, 'c) world" where
  "setdefault_dict ns key w =
     (case stores w ns key of
        Some v \<Rightarrow> (v, w)
      | None \<Rightarrow> (let (a, w1) = heap_new Map.empty w in (Ref a, map_set ns key (Ref a) w1)))"

text \<open>
  The loop of lines 72 to 74 over the rows of the file. A row without the column, a date
  that \<^verbatim>\<open>strptime\<close> rejects and a fixing that \<^verbatim>\<open>float\<close> rejects raise; the right-hand
  side of line 74 is evaluated before \<^verbatim>\<open>setdefault\<close>. Rows loaded before a failing row
  stay loaded.
\<close>

fun load_rows ::
  "'i env \<Rightarrow> string \<Rightarrow> (string \<rightharpoonup> string) list \<Rightarrow> ('i, 'c) world
     \<Rightarrow> (error + unit) \<times> ('i, 'c) world" where
  "load_rows env key [] w = (Inr (), w)"
| "load_rows env key (this_line # rest) w =
     (case this_line ''date'' of
        None \<Rightarrow> (Inl MalformedRecord, w)
      | Some ds \<Rightarrow>
          (case strptime env ds of
             None \<Rightarrow> (Inl MalformedRecord, w)
           | Some fixing_date \<Rightarrow>
               (case this_line ''fixing'' of
                  None \<Rightarrow> (Inl MalformedRecord, w)
                | Some fs \<Rightarrow>
                    (case float_of env fs of
                       None \<Rightarrow> (Inl MalformedRecord, w)
                     | Some x \<Rightarrow>
                         (let (v, w1) = setdefault_dict ''fixings'' (upper key) w in
                          case as_dict w1 v of
                            None \<Rightarrow> (Inl PyTypeError, w1)
                          | Some (a, d) \<Rightarrow>
                              load_rows env key rest
                                (heap_set a (d(KDate fixing_date \<mapsto> AFloat x)) w1))))))"

text \<open>Lines 66 to 74. The registry's namespace is \<^verbatim>\<open>'fixings'\<close> (line 64).\<close>

definition fixings_register ::
  "'i env \<Rightarrow> string \<Rightarrow> ('i, 'c) pyval \<Rightarrow> ('i, 'c) world \<Rightarrow> (error + unit) \<times> ('i, 'c) world" where
  "fixings_register env key value w =
     (case base_register ''fixings'' key value w of
        (Inl e, w1) \<Rightarrow> (Inl e, w1)
      | (Inr _, w1) \<Rightarrow>
          (let this_path = path_join (fixing_path env) (lower key @ ''.csv'') in
           case csv_files env this_path of
             None \<Rightarrow> (Inr (), w1)
           | Some rows \<Rightarrow> load_rows env key rows w1))"

text \<open>Lines 76 to 81. \<^verbatim>\<open>date in this_map\<close> raises on a value that is not a dictionary.\<close>

definition insert_fixing ::
  "string \<Rightarrow> date \<Rightarrow> real \<Rightarrow> ('i, 'c) world \<Rightarrow> (error + unit) \<times> ('i, 'c) world" where
  "insert_fixing index date fixing w =
     (case base_get ''fixings'' (lower index) w of
        Inl e \<Rightarrow> (Inl e, w)
      | Inr v \<Rightarrow>
          (case as_dict w v of
             None \<Rightarrow> (Inl PyTypeError, w)
           | Some (a, this_map) \<Rightarrow>
               (if this_map (KDate date) \<noteq> None then (Inr (), w)
                else (Inr (), heap_set a (this_map(KDate date \<mapsto> AFloat fixing)) w))))"

text \<open>Lines 83 to 85.\<close>

definition exist_fixing :: "string \<Rightarrow> date \<Rightarrow> ('i, 'c) world \<Rightarrow> error + bool" where
  "exist_fixing index date w =
     (case base_get ''fixings'' (lower index) w of
        Inl e \<Rightarrow> Inl e
      | Inr v \<Rightarrow>
          (case as_dict w v of
             None \<Rightarrow> Inl PyTypeError
           | Some (a, this_map) \<Rightarrow> Inr (this_map (KDate date) \<noteq> None)))"

text \<open>Lines 87 to 92. A date that is absent from the series raises the \<^verbatim>\<open>Exception\<close> of
  line 92, the specification's NotFound.\<close>

definition get_fixing :: "string \<Rightarrow> date \<Rightarrow> ('i, 'c) world \<Rightarrow> error + pyatom" where
  "get_fixing index date w =
     (case base_get ''fixings'' (lower index) w of
        Inl e \<Rightarrow> Inl e
      | Inr v \<Rightarrow>
          (case as_dict w v of
             None \<Rightarrow> Inl PyTypeError
           | Some (a, this_map) \<Rightarrow>
               (case this_map (KDate date) of
                  Some x \<Rightarrow> Inr x
                | None \<Rightarrow> Inl NotFound)))"

text \<open>Lines 94 to 99. The index is passed on as it is, not lower-cased. \<^verbatim>\<open>dict.pop\<close> of
  an absent date raises \<^verbatim>\<open>KeyError\<close>, given here as NotFound.\<close>

definition remove_fixing ::
  "string \<Rightarrow> date option \<Rightarrow> ('i, 'c) world \<Rightarrow> (error + unit) \<times> ('i, 'c) world" where
  "remove_fixing index date w =
     (case date of
        None \<Rightarrow> base_erase ''fixings'' index w
      | Some d \<Rightarrow>
          (case base_get ''fixings'' index w of
             Inl e \<Rightarrow> (Inl e, w)
           | Inr v \<Rightarrow>
               (case as_dict w v of
                  None \<Rightarrow> (Inl PyTypeError, w)
                | Some (a, this_map) \<Rightarrow>
                    (if this_map (KDate d) = None then (Inl NotFound, w)
                     else (Inr (), heap_set a (this_map(KDate d := None)) w)))))"

section \<open>\<^verbatim>\<open>DataConventionRegFunction\<close> and \<^verbatim>\<open>DataIdentifierRegistry\<close>\<close>

text \<open>Lines 101 to 108. The namespace passed to the base class is the empty string.\<close>

definition regfunction_register ::
  "string \<Rightarrow> ('i, 'c) pyval \<Rightarrow> ('i, 'c) world \<Rightarrow> (error + unit) \<times> ('i, 'c) world" where
  "regfunction_register key value w =
     (case base_register '''' key value w of
        (Inl e, w1) \<Rightarrow> (Inl e, w1)
      | (Inr _, w1) \<Rightarrow> (Inr (), map_set '''' key value w1))"

text \<open>
  \<^verbatim>\<open>DataConventionRegFunction().get(type)\<close>: the class does not override \<^verbatim>\<open>get\<close>, so this is
  the base lookup in the namespace of the class. The argument is whatever the spec held
  under \<^verbatim>\<open>"type"\<close>; the store is keyed by strings, so any other atom is absent from it.
  The call is recorded in the ghost field \<open>lookups\<close>.
\<close>

definition regfunction_get ::
  "pyatom \<Rightarrow> ('i, 'c) world \<Rightarrow> (error + ('i, 'c) pyval) \<times> ('i, 'c) world" where
  "regfunction_get t w =
     ((case t of AStr s \<Rightarrow> base_get '''' s w | _ \<Rightarrow> Inl NotFound),
      w\<lparr>lookups := t # lookups w\<rparr>)"

text \<open>Lines 130 to 137. The namespace passed to the base class is the empty string too.\<close>

definition identifier_register ::
  "string \<Rightarrow> ('i, 'c) pyval \<Rightarrow> ('i, 'c) world \<Rightarrow> (error + unit) \<times> ('i, 'c) world" where
  "identifier_register key value w =
     (case base_register '''' key value w of
        (Inl e, w1) \<Rightarrow> (Inl e, w1)
      | (Inr _, w1) \<Rightarrow> (Inr (), map_set '''' key value w1))"

section \<open>\<^verbatim>\<open>DataConventionRegistry\<close>\<close>

text \<open>
  Lines 115 to 121; the namespace is \<^verbatim>\<open>'data_conventions'\<close> (line 113). \<^verbatim>\<open>value.copy()\<close>
  allocates a new dictionary \<open>a\<close> with the contents \<open>d\<close> of the caller's; a value that is
  not a dictionary has no \<^verbatim>\<open>copy\<close>. The base registration stores the reference to the
  copy (\<open>value_copy\<close> stands for \<^verbatim>\<open>value_\<close>), so \<^verbatim>\<open>value_.pop('type')\<close> changes the stored object as well. A value found in
  the constructor registry that is not a function cannot be called.
\<close>

definition convention_register ::
  "string \<Rightarrow> ('i, 'c) pyval \<Rightarrow> ('i, 'c) world \<Rightarrow> (error + unit) \<times> ('i, 'c) world" where
  "convention_register key value w =
     (case as_dict w value of
        None \<Rightarrow> (Inl PyTypeError, w)
      | Some (_, d) \<Rightarrow>
          (let (a, w1) = heap_new d w in
           case base_register ''data_conventions'' key (Ref a) w1 of
             (Inl e, w2) \<Rightarrow> (Inl e, w2)
           | (Inr _, w2) \<Rightarrow>
               (case d (KStr ''type'') of
                  None \<Rightarrow> (Inl MissingField, w2)
                | Some type \<Rightarrow>
                    (let value_copy = d(KStr ''type'' := None);
                         w3 = heap_set a value_copy w2
                     in case regfunction_get type w3 of
                          (Inl e, w4) \<Rightarrow> (Inl e, w4)
                        | (Inr (Func func), w4) \<Rightarrow>
                            (case func key value_copy of
                               Inl e \<Rightarrow> (Inl e, w4)
                             | Inr c \<Rightarrow>
                                 (Inr (), map_set ''data_conventions'' key (Conv c) w4))
                        | (Inr _, w4) \<Rightarrow> (Inl PyTypeError, w4)))))"

text \<open>\<^verbatim>\<open>DataConventionRegistry().get(key)\<close>: the base lookup.\<close>

definition convention_get :: "string \<Rightarrow> ('i, 'c) world \<Rightarrow> error + ('i, 'c) pyval" where
  "convention_get key w = base_get ''data_conventions'' key w"

section \<open>Concrete inputs\<close>

text \<open>
  An environment to run the registries in. The catalog has \<^verbatim>\<open>USDLibor\<close>, which cannot be
  built without a tenor, and \<^verbatim>\<open>Sofr\<close>, which is built without arguments; an index object
  is shown as its class name and tenor. One fixings file exists, for \<^verbatim>\<open>sofr\<close>, with the
  two rows of the specification's example.
\<close>

definition demo_env :: "(string \<times> string) env" where
  "demo_env =
     \<lparr>ql_getattr =
        [''USDLibor'' \<mapsto> \<lparr>call_noargs = Inl ExternalError,
                            call_period = (\<lambda>t. Inr (''USDLibor'', t))\<rparr>,
         ''Sofr'' \<mapsto> \<lparr>call_noargs = Inr (''Sofr'', ''''),
                        call_period = (\<lambda>t. Inl ExternalError)\<rparr>],
      is_term = (\<lambda>t. Inr (t = ''3M'' \<or> t = ''3m'' \<or> t = ''6M'')),
      fixing_path = ''/data/fixings'',
      csv_files =
        [''/data/fixings/sofr.csv'' \<mapsto>
           [[''date'' \<mapsto> ''2020-01-01'', ''fixing'' \<mapsto> ''1.25''],
            [''date'' \<mapsto> ''2020-01-02'', ''fixing'' \<mapsto> ''1.30'']]],
      strptime = [''2020-01-01'' \<mapsto> Date 2020 1 1, ''2020-01-02'' \<mapsto> Date 2020 1 2],
      float_of = [''1.25'' \<mapsto> 1.25, ''1.30'' \<mapsto> 1.3]\<rparr>"

text \<open>A fresh process: no dictionary, every registry empty.\<close>

definition empty_world :: "(string \<times> string, string) world" where
  "empty_world = \<lparr>heap = [], stores = (\<lambda>_. Map.empty), lookups = []\<rparr>"

text \<open>The caller holds two convention specs: the specification's example at address 0,
  and the same spec without its \<^verbatim>\<open>"type"\<close> field at address 1.\<close>

definition spec_world :: "(string \<times> string, string) world" where
  "spec_world =
     \<lparr>heap = [[KStr ''type'' \<mapsto> AStr ''Actual360'', KStr ''other_field'' \<mapsto> AInt 7],
              [KStr ''other_field'' \<mapsto> AInt 7]],
      stores = (\<lambda>_. Map.empty), lookups = []\<rparr>"

text \<open>As \<open>spec_world\<close>, after a constructor was registered for \<^verbatim>\<open>Actual360\<close>; the
  convention object it builds is shown as the key it was built for.\<close>

definition actual360_world :: "(string \<times> string, string) world" where
  "actual360_world =
     snd (regfunction_register ''Actual360'' (Func (\<lambda>k d. Inr k)) spec_world)"

text \<open>The caller holds two empty dictionaries, at addresses 0 and 1.\<close>

definition series_world :: "(string \<times> string, string) world" where
  "series_world = \<lparr>heap = [Map.empty, Map.empty], stores = (\<lambda>_. Map.empty), lookups = []\<rparr>"

text \<open>\<^verbatim>\<open>libor\<close> (which has no fixings file) registered with the dictionary at address 0,
  and then one fixing inserted.\<close>

definition libor_registered :: "(string \<times> string, string) world" where
  "libor_registered = snd (fixings_register demo_env ''libor'' (Ref 0) series_world)"

definition libor_world :: "(string \<times> string, string) world" where
  "libor_world = snd (insert_fixing ''libor'' (Date 2020 1 1) 1 libor_registered)"

section \<open>Evaluation\<close>

lemmas model_defs =
  index_register_def index_get_def base_register_def base_get_def base_erase_def
  map_set_def heap_get_def heap_set_def heap_new_def as_dict_def setdefault_dict_def
  fixings_register_def insert_fixing_def exist_fixing_def get_fixing_def remove_fixing_def
  regfunction_register_def regfunction_get_def identifier_register_def
  convention_register_def convention_get_def Let_def

lemmas str_defs =
  upper_def upper_char_def lower_def lower_char_def last_segment_def path_join_def

lemma upper_example: "upper ''usd-libor-3m'' = ''USD-LIBOR-3M''"
  by (simp add: str_defs)

lemma last_segment_example:
  "last_segment ''usd-libor-3m'' = ''3m'' \<and> last_segment ''SOFR'' = ''SOFR''"
  by (simp add: str_defs)

lemma path_join_example:
  "path_join ''/data/fixings'' (lower ''SOFR'' @ ''.csv'') = ''/data/fixings/sofr.csv''"
  by (simp add: str_defs)

lemma libor_registered_eq:
  "libor_registered =
     \<lparr>heap = [Map.empty, Map.empty],
      stores = (\<lambda>_. Map.empty)(''fixings'' := [''libor'' \<mapsto> Ref 0]), lookups = []\<rparr>"
  by (simp add: libor_registered_def model_defs str_defs demo_env_def series_world_def)

lemma libor_world_eq:
  "libor_world =
     \<lparr>heap = [[KDate (Date 2020 1 1) \<mapsto> AFloat 1], Map.empty],
      stores = (\<lambda>_. Map.empty)(''fixings'' := [''libor'' \<mapsto> Ref 0]), lookups = []\<rparr>"
  by (simp add: libor_world_def libor_registered_eq model_defs str_defs)

text \<open>A registration of the specification's example convention that succeeds: the
  constructed object replaces the raw spec under the key, the stored copy (address 2) has
  lost its \<^verbatim>\<open>"type"\<close> field, and one constructor lookup was made.\<close>

lemma convention_register_example:
  "fst (convention_register ''30/360'' (Ref 0) actual360_world) = Inr ()
   \<and> convention_get ''30/360'' (snd (convention_register ''30/360'' (Ref 0) actual360_world))
       = Inr (Conv ''30/360'')
   \<and> (heap (snd (convention_register ''30/360'' (Ref 0) actual360_world)) ! 2) (KStr ''type'')
       = None
   \<and> (heap (snd (convention_register ''30/360'' (Ref 0) actual360_world)) ! 2)
        (KStr ''other_field'') = Some (AInt 7)
   \<and> lookups (snd (convention_register ''30/360'' (Ref 0) actual360_world))
       = [AStr ''Actual360'']"
  by (simp add: actual360_world_def spec_world_def model_defs)

section \<open>\<^verbatim>\<open>IndexRegistry\<close>: construction and lookup\<close>

text \<open>
  Claim C7 says that for every key whose parameterless construction fails and whose part
  after the last \<^verbatim>\<open>-\<close> is not a relative term, \<^verbatim>\<open>IndexRegistry.register\<close> fails with
  ConstructionError and no index is stored for the key. The duplicate check of the base
  registration comes first (line 19): with \<^verbatim>\<open>USD-LIBOR-XYZ\<close> already registered (as a
  \<^verbatim>\<open>Sofr\<close> index), registering it with \<^verbatim>\<open>USDLibor\<close>, which cannot be built without a
  tenor, fails with DuplicateKey, and \<^verbatim>\<open>get\<close> still returns the index stored for the key.
\<close>

theorem index_register_not_term_counterexample:
  "fst (index_register demo_env ''USD-LIBOR-XYZ'' ''Sofr'' empty_world) = Inr ()
   \<and> ql_getattr demo_env ''USDLibor''
       = Some \<lparr>call_noargs = Inl ExternalError, call_period = (\<lambda>t. Inr (''USDLibor'', t))\<rparr>
   \<and> is_term demo_env (last_segment ''USD-LIBOR-XYZ'') = Inr False
   \<and> fst (index_register demo_env ''USD-LIBOR-XYZ'' ''USDLibor''
            (snd (index_register demo_env ''USD-LIBOR-XYZ'' ''Sofr'' empty_world)))
       = Inl DuplicateKey
   \<and> index_get ''USD-LIBOR-XYZ''
        (snd (index_register demo_env ''USD-LIBOR-XYZ'' ''USDLibor''
               (snd (index_register demo_env ''USD-LIBOR-XYZ'' ''Sofr'' empty_world))))
       = Inr (Index (''Sofr'', ''''))"
  by (simp add: model_defs str_defs demo_env_def empty_world_def)

text \<open>
  Claim C7, amended. For every key, when the type name resolves, the parameterless
  construction fails and the part of the key after its last \<^verbatim>\<open>-\<close> is classified as not a
  relative term, \<^verbatim>\<open>IndexRegistry.register\<close> fails: with ConstructionError when the key is
  not yet registered, with DuplicateKey when it already is. In neither case does the call
  store an index: when the key was already registered the state is unchanged, and
  otherwise the only change is the raw type name that the base registration put under
  the key (which stays there), so every index object found in the store afterwards was
  there before.
\<close>

theorem index_register_not_term:
  assumes resolves: "ql_getattr env type_name = Some q"
    and noargs_fails: "call_noargs q = Inl e"
    and not_term: "is_term env (last_segment key) = Inr False"
  shows "fst (index_register env key type_name w)
           = (if stores w ''indices'' key = None then Inl ConstructionError
              else Inl DuplicateKey)
       \<and> snd (index_register env key type_name w)
           = (if stores w ''indices'' key = None
              then map_set ''indices'' key (Atom (AStr type_name)) w else w)
       \<and> (\<forall>k i. stores (snd (index_register env key type_name w)) ''indices'' k
                   = Some (Index i)
             \<longrightarrow> stores w ''indices'' k = Some (Index i))"
proof (cases "stores w ''indices'' key = None")
  case True
  have run: "index_register env key type_name w
               = (Inl ConstructionError, map_set ''indices'' key (Atom (AStr type_name)) w)"
    using assms True by (simp add: index_register_def base_register_def Let_def)
  have "stores w ''indices'' k = Some (Index i)"
    if "stores (map_set ''indices'' key (Atom (AStr type_name)) w) ''indices'' k
          = Some (Index i)"
    for k i
    using that by (cases "k = key") (simp_all add: map_set_def)
  with run True show ?thesis by simp
next
  case False
  then have "index_register env key type_name w = (Inl DuplicateKey, w)"
    by (simp add: index_register_def base_register_def)
  with False show ?thesis by simp
qed

theorem index_register_not_term_witness:
  "stores empty_world ''indices'' ''USD-LIBOR-XYZ'' = None
   \<and> ql_getattr demo_env ''USDLibor''
       = Some \<lparr>call_noargs = Inl ExternalError, call_period = (\<lambda>t. Inr (''USDLibor'', t))\<rparr>
   \<and> is_term demo_env (last_segment ''USD-LIBOR-XYZ'') = Inr False
   \<and> fst (index_register demo_env ''USD-LIBOR-XYZ'' ''USDLibor'' empty_world)
       = Inl ConstructionError
   \<and> snd (index_register demo_env ''USD-LIBOR-XYZ'' ''USDLibor'' empty_world)
       = map_set ''indices'' ''USD-LIBOR-XYZ'' (Atom (AStr ''USDLibor'')) empty_world
   \<and> stores (snd (index_register demo_env ''USD-LIBOR-XYZ'' ''USDLibor'' empty_world))
        ''indices'' ''USD-LIBOR-XYZ'' = Some (Atom (AStr ''USDLibor''))"
proof -
  have h1: "stores empty_world ''indices'' ''USD-LIBOR-XYZ'' = None"
    by (simp add: empty_world_def)
  have h2: "ql_getattr demo_env ''USDLibor''
       = Some \<lparr>call_noargs = Inl ExternalError, call_period = (\<lambda>t. Inr (''USDLibor'', t))\<rparr>"
    by (simp add: demo_env_def)
  have h3: "call_noargs \<lparr>call_noargs = Inl ExternalError,
              call_period = (\<lambda>t. Inr (''USDLibor'', t))\<rparr> = Inl ExternalError"
    by simp
  have h4: "is_term demo_env (last_segment ''USD-LIBOR-XYZ'') = Inr False"
    by (simp add: demo_env_def str_defs)
  note run = index_register_not_term [OF h2 h3 h4, where w = empty_world]
  have r1: "fst (index_register demo_env ''USD-LIBOR-XYZ'' ''USDLibor'' empty_world)
              = Inl ConstructionError"
    using run [THEN conjunct1] h1 by simp
  have r2: "snd (index_register demo_env ''USD-LIBOR-XYZ'' ''USDLibor'' empty_world)
              = map_set ''indices'' ''USD-LIBOR-XYZ'' (Atom (AStr ''USDLibor'')) empty_world"
    using run [THEN conjunct2, THEN conjunct1] h1 by simp
  have r3: "stores (map_set ''indices'' ''USD-LIBOR-XYZ'' (Atom (AStr ''USDLibor'')) empty_world)
              ''indices'' ''USD-LIBOR-XYZ'' = Some (Atom (AStr ''USDLibor''))"
    by (simp add: map_set_def)
  show ?thesis
    unfolding r2 using h1 h2 h4 r1 r3 by (intro conjI refl)
qed

text \<open>
  Where the stored index is found again: a registration that builds the index without
  arguments stores it under the upper-cased key, and so does the tenor branch when the
  key is already in upper case. Every casing variant of the key then gets that index.
\<close>

lemma index_register_direct_get:
  assumes "stores w ''indices'' key = None"
    and "ql_getattr env value = Some q"
    and "call_noargs q = Inr idx"
    and "upper s = upper key"
  shows "fst (index_register env key value w) = Inr ()
       \<and> index_get s (snd (index_register env key value w)) = Inr (Index idx)"
  using assms
  by (simp add: index_register_def base_register_def index_get_def map_set_def)

lemma index_register_tenor_get_upper:
  assumes "stores w ''indices'' key = None"
    and "ql_getattr env value = Some q"
    and "call_noargs q = Inl e"
    and "is_term env (last_segment key) = Inr True"
    and "call_period q (last_segment key) = Inr idx"
    and "upper key = key"
    and "upper s = upper key"
  shows "fst (index_register env key value w) = Inr ()
       \<and> index_get s (snd (index_register env key value w)) = Inr (Index idx)"
  using assms
  by (simp add: index_register_def base_register_def index_get_def map_set_def Let_def)

text \<open>
  Claim C2 says that every successful registration, the tenor branch included, stores
  the index under the upper-cased key, so that \<^verbatim>\<open>get\<close> finds it for every casing of the
  key. Line 28 does so; line 34, the tenor branch, stores under the key as it was given.
  Registering \<^verbatim>\<open>usd-libor-3m\<close> with the type \<^verbatim>\<open>USDLibor\<close> succeeds, the index is stored
  under \<^verbatim>\<open>usd-libor-3m\<close>, nothing is stored under \<^verbatim>\<open>USD-LIBOR-3M\<close>, and \<^verbatim>\<open>get\<close> fails
  with NotFound for the registered key itself and for its upper-cased form.
\<close>

theorem index_register_tenor_lower_case_key:
  "fst (index_register demo_env ''usd-libor-3m'' ''USDLibor'' empty_world) = Inr ()
   \<and> stores (snd (index_register demo_env ''usd-libor-3m'' ''USDLibor'' empty_world))
        ''indices'' ''usd-libor-3m'' = Some (Index (''USDLibor'', ''3m''))
   \<and> stores (snd (index_register demo_env ''usd-libor-3m'' ''USDLibor'' empty_world))
        ''indices'' ''USD-LIBOR-3M'' = None
   \<and> index_get ''usd-libor-3m''
        (snd (index_register demo_env ''usd-libor-3m'' ''USDLibor'' empty_world))
       = Inl NotFound
   \<and> index_get ''USD-LIBOR-3M''
        (snd (index_register demo_env ''usd-libor-3m'' ''USDLibor'' empty_world))
       = Inl NotFound"
  by (simp add: model_defs str_defs demo_env_def empty_world_def)

section \<open>Failed registrations\<close>

lemma index_register_failed_world:
  "fst (index_register env key type_name w) = Inl e \<Longrightarrow>
     snd (index_register env key type_name w)
       = (case stores w ''indices'' key of
            None \<Rightarrow> map_set ''indices'' key (Atom (AStr type_name)) w
          | Some v \<Rightarrow> w)"
  by (auto simp: index_register_def base_register_def Let_def
      split: if_splits option.splits sum.splits bool.splits)

lemma index_register_present:
  "stores w ''indices'' key \<noteq> None \<Longrightarrow>
     index_register env key type_name w = (Inl DuplicateKey, w)"
  by (simp add: index_register_def base_register_def)

lemma convention_register_failed_stores:
  "as_dict w spec = Some (a, d) \<Longrightarrow> fst (convention_register key spec w) = Inl e \<Longrightarrow>
     stores (snd (convention_register key spec w))
       = (case stores w ''data_conventions'' key of
            None \<Rightarrow> stores (map_set ''data_conventions'' key (Ref (length (heap w))) w)
          | Some v \<Rightarrow> stores w)"
  by (auto simp: convention_register_def base_register_def map_set_def Let_def heap_new_def
        heap_set_def regfunction_get_def
      split: if_splits option.splits sum.splits pyval.splits prod.splits)

lemma convention_register_failed_copy:
  "as_dict w spec = Some (a, d) \<Longrightarrow> fst (convention_register key spec w) = Inl e \<Longrightarrow>
   stores w ''data_conventions'' key = None \<Longrightarrow>
     heap_get (snd (convention_register key spec w)) (length (heap w))
       = Some (d(KStr ''type'' := None))"
  by (auto simp: convention_register_def base_register_def map_set_def Let_def heap_new_def
        heap_set_def heap_get_def regfunction_get_def fun_upd_idem
      split: if_splits option.splits sum.splits pyval.splits prod.splits)

lemma convention_register_present:
  "as_dict w spec = Some (a, d) \<Longrightarrow> stores w ''data_conventions'' key \<noteq> None \<Longrightarrow>
     fst (convention_register key spec w) = Inl DuplicateKey"
  by (auto simp: convention_register_def base_register_def heap_new_def)

text \<open>
  Claim C1 says that a \<^verbatim>\<open>register\<close> that raises leaves no entry for the key. It does not
  hold: the base registration comes first and nothing undoes it. After
  \<^verbatim>\<open>IndexRegistry().register("FOO", "NoSuchIndex")\<close> fails with UnknownIndexType,
  \<^verbatim>\<open>get("FOO")\<close> returns the raw type name and registering \<^verbatim>\<open>FOO\<close> again fails with
  DuplicateKey; after \<^verbatim>\<open>DataConventionRegistry().register("30/360", spec)\<close> fails with
  MissingField, \<^verbatim>\<open>get("30/360")\<close> returns the copy of the spec and registering the key
  again, now with a complete spec, fails with DuplicateKey.
\<close>

theorem failed_register_leaves_entry_counterexample:
  "fst (index_register demo_env ''FOO'' ''NoSuchIndex'' empty_world) = Inl UnknownIndexType
   \<and> index_get ''FOO'' (snd (index_register demo_env ''FOO'' ''NoSuchIndex'' empty_world))
       = Inr (Atom (AStr ''NoSuchIndex''))
   \<and> fst (index_register demo_env ''FOO'' ''Sofr''
            (snd (index_register demo_env ''FOO'' ''NoSuchIndex'' empty_world)))
       = Inl DuplicateKey
   \<and> fst (convention_register ''30/360'' (Ref 1) spec_world) = Inl MissingField
   \<and> convention_get ''30/360'' (snd (convention_register ''30/360'' (Ref 1) spec_world))
       = Inr (Ref 2)
   \<and> fst (convention_register ''30/360'' (Ref 0)
            (snd (convention_register ''30/360'' (Ref 1) spec_world)))
       = Inl DuplicateKey"
  by (simp add: model_defs str_defs demo_env_def empty_world_def spec_world_def)

text \<open>
  Claim C1, amended. A \<^verbatim>\<open>register\<close> that raises leaves the key present in the store.
  For \<^verbatim>\<open>IndexRegistry.register(k, v)\<close>: when \<open>k\<close> was already registered the state is
  unchanged (the earlier entry stays), and otherwise the only change is that \<open>k\<close> holds
  the raw type name \<open>v\<close> of the base registration; a further \<^verbatim>\<open>register(k, v')\<close> fails
  with DuplicateKey, and \<^verbatim>\<open>get(k)\<close> returns that entry when \<open>k\<close> is in upper case. For
  \<^verbatim>\<open>DataConventionRegistry.register(k, spec)\<close> with a dictionary \<open>spec\<close>: when \<open>k\<close> was
  already registered the stores are unchanged, and otherwise the only change to them is
  that \<open>k\<close> holds the reference to the copy of the spec, whose contents are those of
  \<open>spec\<close> without the \<^verbatim>\<open>"type"\<close> field; \<^verbatim>\<open>get(k)\<close> returns that entry and a further
  \<^verbatim>\<open>register(k, spec')\<close> with a dictionary \<open>spec'\<close> fails with DuplicateKey.
\<close>

theorem failed_register_keeps_key:
  "(fst (index_register env key type_name w) = Inl e \<longrightarrow>
      snd (index_register env key type_name w)
        = (case stores w ''indices'' key of
             None \<Rightarrow> map_set ''indices'' key (Atom (AStr type_name)) w
           | Some v \<Rightarrow> w)
    \<and> stores (snd (index_register env key type_name w)) ''indices'' key
        = Some (case stores w ''indices'' key of
                  None \<Rightarrow> Atom (AStr type_name) | Some v \<Rightarrow> v)
    \<and> fst (index_register env key type_name' (snd (index_register env key type_name w)))
        = Inl DuplicateKey
    \<and> (upper key = key \<longrightarrow>
          index_get key (snd (index_register env key type_name w))
            = Inr (case stores w ''indices'' key of
                     None \<Rightarrow> Atom (AStr type_name) | Some v \<Rightarrow> v)))
   \<and> (as_dict w spec = Some (a, d) \<and> fst (convention_register key spec w) = Inl e'
        \<and> as_dict (snd (convention_register key spec w)) spec' = Some (a', d') \<longrightarrow>
      stores (snd (convention_register key spec w))
        = (case stores w ''data_conventions'' key of
             None \<Rightarrow> stores (map_set ''data_conventions'' key (Ref (length (heap w))) w)
           | Some v \<Rightarrow> stores w)
    \<and> convention_get key (snd (convention_register key spec w))
        = Inr (case stores w ''data_conventions'' key of
                 None \<Rightarrow> Ref (length (heap w)) | Some v \<Rightarrow> v)
    \<and> (stores w ''data_conventions'' key = None \<longrightarrow>
          heap_get (snd (convention_register key spec w)) (length (heap w))
            = Some (d(KStr ''type'' := None)))
    \<and> fst (convention_register key spec' (snd (convention_register key spec w)))
        = Inl DuplicateKey)"
proof (intro conjI impI)
  assume f: "fst (index_register env key type_name w) = Inl e"
  show run: "snd (index_register env key type_name w)
        = (case stores w ''indices'' key of
             None \<Rightarrow> map_set ''indices'' key (Atom (AStr type_name)) w
           | Some v \<Rightarrow> w)"
    using f by (rule index_register_failed_world)
  show entry: "stores (snd (index_register env key type_name w)) ''indices'' key
        = Some (case stores w ''indices'' key of
                  None \<Rightarrow> Atom (AStr type_name) | Some v \<Rightarrow> v)"
    unfolding run by (simp add: map_set_def split: option.splits)
  then have "stores (snd (index_register env key type_name w)) ''indices'' key \<noteq> None"
    by simp
  then show "fst (index_register env key type_name' (snd (index_register env key type_name w)))
          = Inl DuplicateKey"
    using index_register_present by (metis fst_conv)
  show "index_get key (snd (index_register env key type_name w))
            = Inr (case stores w ''indices'' key of
                     None \<Rightarrow> Atom (AStr type_name) | Some v \<Rightarrow> v)"
    if "upper key = key"
    using entry that by (simp add: index_get_def)
next
  assume h: "as_dict w spec = Some (a, d) \<and> fst (convention_register key spec w) = Inl e'
        \<and> as_dict (snd (convention_register key spec w)) spec' = Some (a', d')"
  show st: "stores (snd (convention_register key spec w))
        = (case stores w ''data_conventions'' key of
             None \<Rightarrow> stores (map_set ''data_conventions'' key (Ref (length (heap w))) w)
           | Some v \<Rightarrow> stores w)"
    using h convention_register_failed_stores by blast
  show entry: "convention_get key (snd (convention_register key spec w))
        = Inr (case stores w ''data_conventions'' key of
                 None \<Rightarrow> Ref (length (heap w)) | Some v \<Rightarrow> v)"
    unfolding convention_get_def base_get_def st
    by (simp add: map_set_def split: option.splits)
  show "heap_get (snd (convention_register key spec w)) (length (heap w))
            = Some (d(KStr ''type'' := None))"
    if "stores w ''data_conventions'' key = None"
    using h that convention_register_failed_copy by blast
  have "stores (snd (convention_register key spec w)) ''data_conventions'' key \<noteq> None"
    unfolding st by (simp add: map_set_def split: option.splits)
  then show "fst (convention_register key spec' (snd (convention_register key spec w)))
          = Inl DuplicateKey"
    using convention_register_present h by blast
qed

theorem failed_register_keeps_key_witness:
  "fst (index_register demo_env ''FOO'' ''NoSuchIndex'' spec_world) = Inl UnknownIndexType
   \<and> upper ''FOO'' = ''FOO''
   \<and> stores spec_world ''indices'' ''FOO'' = None
   \<and> snd (index_register demo_env ''FOO'' ''NoSuchIndex'' spec_world)
       = map_set ''indices'' ''FOO'' (Atom (AStr ''NoSuchIndex'')) spec_world
   \<and> index_get ''FOO'' (snd (index_register demo_env ''FOO'' ''NoSuchIndex'' spec_world))
       = Inr (Atom (AStr ''NoSuchIndex''))
   \<and> fst (index_register demo_env ''FOO'' ''Sofr''
            (snd (index_register demo_env ''FOO'' ''NoSuchIndex'' spec_world)))
       = Inl DuplicateKey
   \<and> as_dict spec_world (Ref 0)
       = Some (0, [KStr ''type'' \<mapsto> AStr ''Actual360'', KStr ''other_field'' \<mapsto> AInt 7])
   \<and> stores spec_world ''data_conventions'' ''FOO'' = None
   \<and> fst (convention_register ''FOO'' (Ref 0) spec_world) = Inl NotFound
   \<and> as_dict (snd (convention_register ''FOO'' (Ref 0) spec_world)) (Ref 1)
       = Some (1, [KStr ''other_field'' \<mapsto> AInt 7])
   \<and> convention_get ''FOO'' (snd (convention_register ''FOO'' (Ref 0) spec_world))
       = Inr (Ref 2)
   \<and> heap_get (snd (convention_register ''FOO'' (Ref 0) spec_world)) 2
       = Some ([KStr ''type'' \<mapsto> AStr ''Actual360'', KStr ''other_field'' \<mapsto> AInt 7]
                 (KStr ''type'' := None))
   \<and> fst (convention_register ''FOO'' (Ref 1)
            (snd (convention_register ''FOO'' (Ref 0) spec_world)))
       = Inl DuplicateKey"
proof -
  have i: "fst (index_register demo_env ''FOO'' ''NoSuchIndex'' spec_world)
             = Inl UnknownIndexType"
    by (simp add: index_register_def base_register_def map_set_def demo_env_def
          spec_world_def)
  have u: "upper ''FOO'' = ''FOO''"
    by (simp add: str_defs)
  have n: "stores spec_world ''indices'' ''FOO'' = None"
    "stores spec_world ''data_conventions'' ''FOO'' = None"
    "length (heap spec_world) = 2"
    by (simp_all add: spec_world_def)
  have s0: "as_dict spec_world (Ref 0)
       = Some (0, [KStr ''type'' \<mapsto> AStr ''Actual360'', KStr ''other_field'' \<mapsto> AInt 7])"
    by (simp add: as_dict_def heap_get_def spec_world_def)
  have c: "fst (convention_register ''FOO'' (Ref 0) spec_world) = Inl NotFound"
    by (simp add: model_defs spec_world_def)
  have s1: "as_dict (snd (convention_register ''FOO'' (Ref 0) spec_world)) (Ref 1)
       = Some (1, [KStr ''other_field'' \<mapsto> AInt 7])"
    by (simp add: model_defs spec_world_def)
  note t = failed_register_keeps_key
        [where env = demo_env and key = "''FOO''" and type_name = "''NoSuchIndex''"
           and w = spec_world and e = UnknownIndexType and type_name' = "''Sofr''"
           and spec = "Ref 0" and a = 0
           and d = "[KStr ''type'' \<mapsto> AStr ''Actual360'', KStr ''other_field'' \<mapsto> AInt 7]"
           and e' = NotFound and spec' = "Ref 1" and a' = 1
           and d' = "[KStr ''other_field'' \<mapsto> AInt 7]"]
  note index_part = t [THEN conjunct1, THEN mp, OF i]
  note convention_part = t [THEN conjunct2, THEN mp, OF conjI [OF s0 conjI [OF c s1]]]
  have g1: "snd (index_register demo_env ''FOO'' ''NoSuchIndex'' spec_world)
       = map_set ''indices'' ''FOO'' (Atom (AStr ''NoSuchIndex'')) spec_world"
    using index_part [THEN conjunct1] n by simp
  have g2: "fst (index_register demo_env ''FOO'' ''Sofr''
                  (snd (index_register demo_env ''FOO'' ''NoSuchIndex'' spec_world)))
              = Inl DuplicateKey
            \<and> index_get ''FOO''
                 (snd (index_register demo_env ''FOO'' ''NoSuchIndex'' spec_world))
              = Inr (Atom (AStr ''NoSuchIndex''))"
    using index_part [THEN conjunct2, THEN conjunct2] n u by simp
  have g3: "convention_get ''FOO'' (snd (convention_register ''FOO'' (Ref 0) spec_world))
              = Inr (Ref 2)
            \<and> heap_get (snd (convention_register ''FOO'' (Ref 0) spec_world)) 2
              = Some ([KStr ''type'' \<mapsto> AStr ''Actual360'', KStr ''other_field'' \<mapsto> AInt 7]
                        (KStr ''type'' := None))
            \<and> fst (convention_register ''FOO'' (Ref 1)
                     (snd (convention_register ''FOO'' (Ref 0) spec_world)))
              = Inl DuplicateKey"
    using convention_part [THEN conjunct2] n by simp
  show ?thesis
    using i u n s0 c s1 g1 g2 g3 by simp
qed

section \<open>\<^verbatim>\<open>DataConventionRegistry\<close>: the caller's dictionary\<close>

text \<open>
  Claim C5. \<^verbatim>\<open>DataConventionRegistry.register\<close> leaves the dictionary the caller passed as
  it was, whether the call succeeds or fails: the dictionary at the caller's address \<open>a\<close>
  has the same contents after the call as before (so a \<^verbatim>\<open>"type"\<close> key it had is still
  there). The registry works on a copy at a new address.
\<close>

theorem convention_register_keeps_callers_dict:
  "heap_get (snd (convention_register key (Ref a) w)) a = heap_get w a"
proof (cases "a < length (heap w)")
  case False
  then show ?thesis
    by (simp add: convention_register_def as_dict_def heap_get_def)
next
  case True
  then show ?thesis
    by (auto simp: convention_register_def as_dict_def heap_get_def heap_new_def heap_set_def
          base_register_def map_set_def regfunction_get_def Let_def nth_append
        split: option.splits sum.splits pyval.splits prod.splits)
qed

section \<open>\<^verbatim>\<open>DataConventionRegistry\<close>: a spec without its type\<close>

text \<open>
  Claim C6 says that for every key a spec without a \<^verbatim>\<open>"type"\<close> field fails with
  MissingField. The duplicate check of the base registration comes before the field is
  read (line 117 before line 118): once \<^verbatim>\<open>30/360\<close> is registered (with the complete spec
  at address 0), registering that key with the spec at address 1, which has no
  \<^verbatim>\<open>"type"\<close>, fails with DuplicateKey.
\<close>

theorem convention_register_missing_type_counterexample:
  "fst (convention_register ''30/360'' (Ref 0) actual360_world) = Inr ()
   \<and> (heap (snd (convention_register ''30/360'' (Ref 0) actual360_world)) ! 1)
        (KStr ''type'') = None
   \<and> fst (convention_register ''30/360'' (Ref 1)
            (snd (convention_register ''30/360'' (Ref 0) actual360_world)))
       = Inl DuplicateKey"
  by (simp add: actual360_world_def spec_world_def model_defs)

text \<open>
  Claim C6, amended. For every key and every spec dictionary without a \<^verbatim>\<open>"type"\<close> field,
  \<^verbatim>\<open>DataConventionRegistry.register\<close> fails: with MissingField when the key is not yet
  registered, with DuplicateKey when it is. In both cases the failure comes before any
  constructor lookup: no call of \<^verbatim>\<open>DataConventionRegFunction().get\<close> is made.
\<close>

theorem convention_register_missing_type:
  assumes is_dict: "as_dict w value = Some (a, d)"
    and no_type: "d (KStr ''type'') = None"
  shows "fst (convention_register key value w)
           = (if stores w ''data_conventions'' key = None then Inl MissingField
              else Inl DuplicateKey)
       \<and> lookups (snd (convention_register key value w)) = lookups w"
proof (cases "stores w ''data_conventions'' key = None")
  case True
  with assms show ?thesis
    by (simp add: convention_register_def heap_new_def base_register_def map_set_def Let_def)
next
  case False
  with assms show ?thesis
    by (auto simp: convention_register_def heap_new_def base_register_def Let_def)
qed

theorem convention_register_missing_type_witness:
  "as_dict spec_world (Ref 1) = Some (1, [KStr ''other_field'' \<mapsto> AInt 7])
   \<and> [KStr ''other_field'' \<mapsto> AInt 7] (KStr ''type'') = None
   \<and> stores spec_world ''data_conventions'' ''30/360'' = None
   \<and> fst (convention_register ''30/360'' (Ref 1) spec_world) = Inl MissingField
   \<and> lookups (snd (convention_register ''30/360'' (Ref 1) spec_world)) = []"
proof -
  have h1: "as_dict spec_world (Ref 1) = Some (1, [KStr ''other_field'' \<mapsto> AInt 7])"
    by (simp add: as_dict_def heap_get_def spec_world_def)
  have h2: "[KStr ''other_field'' \<mapsto> AInt 7] (KStr ''type'') = None"
    by simp
  have h3: "stores spec_world ''data_conventions'' ''30/360'' = None"
    by (simp add: spec_world_def)
  have h4: "lookups spec_world = []"
    by (simp add: spec_world_def)
  show ?thesis
    using h1 h2 h3 h4 convention_register_missing_type [OF h1 h2, where key = "''30/360''"]
    by simp
qed

section \<open>\<^verbatim>\<open>IndexFixingsManager\<close>: loading, inserting, removing\<close>

text \<open>
  Claim C3 says that after \<^verbatim>\<open>register("SOFR", _)\<close> has loaded the two rows of the file,
  \<^verbatim>\<open>exist_fixing("sofr", 2020-01-01)\<close> is true and \<^verbatim>\<open>get_fixing("sofr", 2020-01-02)\<close> is
  1.30. The registration, here with an empty dictionary as the value, succeeds and loads
  both fixings into the series under \<^verbatim>\<open>SOFR\<close> (line 74 upper-cases the key), but the
  queries look the series up under \<^verbatim>\<open>sofr\<close> (lines 84 and 88 lower-case the index), which
  was never stored: both fail with NotFound.
\<close>

theorem fixings_register_sofr_lookup:
  "fst (fixings_register demo_env ''SOFR'' (Ref 0) series_world) = Inr ()
   \<and> stores (snd (fixings_register demo_env ''SOFR'' (Ref 0) series_world))
        ''fixings'' ''SOFR'' = Some (Ref 0)
   \<and> (heap (snd (fixings_register demo_env ''SOFR'' (Ref 0) series_world)) ! 0)
        (KDate (Date 2020 1 1)) = Some (AFloat 1.25)
   \<and> (heap (snd (fixings_register demo_env ''SOFR'' (Ref 0) series_world)) ! 0)
        (KDate (Date 2020 1 2)) = Some (AFloat 1.3)
   \<and> stores (snd (fixings_register demo_env ''SOFR'' (Ref 0) series_world))
        ''fixings'' ''sofr'' = None
   \<and> exist_fixing ''sofr'' (Date 2020 1 1)
        (snd (fixings_register demo_env ''SOFR'' (Ref 0) series_world)) = Inl NotFound
   \<and> get_fixing ''sofr'' (Date 2020 1 2)
        (snd (fixings_register demo_env ''SOFR'' (Ref 0) series_world)) = Inl NotFound"
  by (simp add: model_defs str_defs demo_env_def series_world_def)

text \<open>The same file registered under the lower-cased key: the rows go to a new series
  under \<^verbatim>\<open>SOFR\<close> (address 2), the queries read the registered value under \<^verbatim>\<open>sofr\<close>, and
  the loaded date is reported absent.\<close>

lemma fixings_register_sofr_lower_example:
  "fst (fixings_register demo_env ''sofr'' (Ref 0) series_world) = Inr ()
   \<and> stores (snd (fixings_register demo_env ''sofr'' (Ref 0) series_world))
        ''fixings'' ''SOFR'' = Some (Ref 2)
   \<and> stores (snd (fixings_register demo_env ''sofr'' (Ref 0) series_world))
        ''fixings'' ''sofr'' = Some (Ref 0)
   \<and> exist_fixing ''sofr'' (Date 2020 1 1)
        (snd (fixings_register demo_env ''sofr'' (Ref 0) series_world)) = Inr False"
  by (simp add: model_defs str_defs demo_env_def series_world_def)

text \<open>
  Claim C4 says that after \<^verbatim>\<open>insert_fixing(index, d, v1)\<close> a second insertion for the same
  date leaves the value at \<open>v1\<close>. When the date is already in the series, the first of
  the two calls is itself the one that changes nothing: with 1 stored for 2020-01-01,
  inserting 2 and then 3 raises no error and \<^verbatim>\<open>get_fixing\<close> returns 1, not 2.
\<close>

theorem insert_fixing_existing_date_counterexample:
  "get_fixing ''libor'' (Date 2020 1 1) libor_world = Inr (AFloat 1)
   \<and> fst (insert_fixing ''libor'' (Date 2020 1 1) 2 libor_world) = Inr ()
   \<and> fst (insert_fixing ''libor'' (Date 2020 1 1) 3
            (snd (insert_fixing ''libor'' (Date 2020 1 1) 2 libor_world))) = Inr ()
   \<and> get_fixing ''libor'' (Date 2020 1 1)
        (snd (insert_fixing ''libor'' (Date 2020 1 1) 3
               (snd (insert_fixing ''libor'' (Date 2020 1 1) 2 libor_world))))
       = Inr (AFloat 1)
   \<and> AFloat 1 \<noteq> AFloat 2"
  by (simp add: libor_world_eq model_defs str_defs)

text \<open>
  Claim C4, amended. For every index whose lower-cased name is registered with a
  dictionary, every date \<open>d\<close> and values \<open>v1\<close>, \<open>v2\<close>: \<^verbatim>\<open>insert_fixing(index, d, v1)\<close> raises
  no error, a second call \<^verbatim>\<open>insert_fixing(index, d, v2)\<close> raises no error and changes
  nothing, and \<^verbatim>\<open>get_fixing(index, d)\<close> then returns \<open>v1\<close> if \<open>d\<close> was absent before the
  first call and the value \<open>d\<close> already had otherwise (the first write wins).
\<close>

theorem insert_fixing_first_write_wins:
  assumes registered: "base_get ''fixings'' (lower index) w = Inr v"
    and series: "as_dict w v = Some (a, m)"
  shows "fst (insert_fixing index d v1 w) = Inr ()
     \<and> fst (insert_fixing index d v2 (snd (insert_fixing index d v1 w))) = Inr ()
     \<and> snd (insert_fixing index d v2 (snd (insert_fixing index d v1 w)))
         = snd (insert_fixing index d v1 w)
     \<and> get_fixing index d (snd (insert_fixing index d v2 (snd (insert_fixing index d v1 w))))
         = Inr (case m (KDate d) of None \<Rightarrow> AFloat v1 | Some x \<Rightarrow> x)"
proof (cases "m (KDate d)")
  case None
  with assms show ?thesis
    by (auto simp: insert_fixing_def get_fixing_def base_get_def as_dict_def heap_get_def
          heap_set_def split: option.splits pyval.splits if_splits)
next
  case (Some x)
  with assms show ?thesis
    by (auto simp: insert_fixing_def get_fixing_def base_get_def as_dict_def heap_get_def
          split: option.splits pyval.splits if_splits)
qed

theorem insert_fixing_first_write_wins_witness:
  "base_get ''fixings'' (lower ''libor'') libor_registered = Inr (Ref 0)
   \<and> as_dict libor_registered (Ref 0) = Some (0, Map.empty)
   \<and> fst (insert_fixing ''libor'' (Date 2020 1 1) 2 libor_registered) = Inr ()
   \<and> fst (insert_fixing ''libor'' (Date 2020 1 1) 3
            (snd (insert_fixing ''libor'' (Date 2020 1 1) 2 libor_registered))) = Inr ()
   \<and> get_fixing ''libor'' (Date 2020 1 1)
        (snd (insert_fixing ''libor'' (Date 2020 1 1) 3
               (snd (insert_fixing ''libor'' (Date 2020 1 1) 2 libor_registered))))
       = Inr (AFloat 2)"
proof -
  have h1: "base_get ''fixings'' (lower ''libor'') libor_registered = Inr (Ref 0)"
    by (simp add: libor_registered_eq base_get_def str_defs)
  have h2: "as_dict libor_registered (Ref 0) = Some (0, Map.empty)"
    by (simp add: libor_registered_eq as_dict_def heap_get_def)
  show ?thesis
    using h1 h2
      insert_fixing_first_write_wins
        [OF h1 h2, where d = "Date 2020 1 1" and ?v1.0 = 2 and ?v2.0 = 3, simplified]
    by blast
qed

text \<open>
  Claim C8 says that after \<^verbatim>\<open>remove_fixing(index)\<close> every \<^verbatim>\<open>get_fixing(index, d)\<close> and
  every \<^verbatim>\<open>insert_fixing\<close> on that index fails with NotFound. \<^verbatim>\<open>remove_fixing\<close> erases the
  entry under the index as given (line 96), while the queries read the entry under the
  lower-cased index (lines 77 and 88). With \<^verbatim>\<open>libor\<close> registered and holding a fixing
  for 2020-01-01, register \<^verbatim>\<open>LIBOR\<close> and remove it: the removal succeeds, the entry
  \<^verbatim>\<open>LIBOR\<close> is gone, and still \<^verbatim>\<open>get_fixing("LIBOR", 2020-01-01)\<close> returns the fixing and
  \<^verbatim>\<open>insert_fixing("LIBOR", 2020-01-02, 2)\<close> succeeds.
\<close>

theorem remove_fixing_other_casing:
  "fst (fixings_register demo_env ''LIBOR'' (Ref 1) libor_world) = Inr ()
   \<and> fst (remove_fixing ''LIBOR'' None
            (snd (fixings_register demo_env ''LIBOR'' (Ref 1) libor_world))) = Inr ()
   \<and> stores (snd (remove_fixing ''LIBOR'' None
                   (snd (fixings_register demo_env ''LIBOR'' (Ref 1) libor_world))))
        ''fixings'' ''LIBOR'' = None
   \<and> get_fixing ''LIBOR'' (Date 2020 1 1)
        (snd (remove_fixing ''LIBOR'' None
               (snd (fixings_register demo_env ''LIBOR'' (Ref 1) libor_world))))
       = Inr (AFloat 1)
   \<and> fst (insert_fixing ''LIBOR'' (Date 2020 1 2) 2
            (snd (remove_fixing ''LIBOR'' None
                   (snd (fixings_register demo_env ''LIBOR'' (Ref 1) libor_world)))))
       = Inr ()"
  by (simp add: libor_world_eq model_defs str_defs demo_env_def)

text \<open>Where the removal does what the claim says: an index that is its own lower-cased
  form is erased under the name the queries use.\<close>

lemma remove_fixing_lower_case:
  assumes "lower index = index" and "fst (remove_fixing index None w) = Inr ()"
  shows "get_fixing index d (snd (remove_fixing index None w)) = Inl NotFound
       \<and> fst (insert_fixing index d v (snd (remove_fixing index None w))) = Inl NotFound"
  using assms
  by (auto simp: remove_fixing_def base_erase_def get_fixing_def insert_fixing_def
        base_get_def split: if_splits)

text \<open>
  Claim C9 says that when the fixings file does not exist, \<^verbatim>\<open>register(key, _)\<close> registers
  the key with an empty series, so that fixings can then be inserted and read. No series
  is created on that path: the key holds the value that was passed. Registering \<^verbatim>\<open>libor\<close>
  (no file) with \<^verbatim>\<open>None\<close> succeeds, the store holds \<^verbatim>\<open>None\<close> under the key, no dictionary
  exists, and \<^verbatim>\<open>insert_fixing\<close> raises on the value.
\<close>

theorem fixings_register_without_file_counterexample:
  "csv_files demo_env (path_join (fixing_path demo_env) (lower ''libor'' @ ''.csv'')) = None
   \<and> fst (fixings_register demo_env ''libor'' (Atom ANone) empty_world) = Inr ()
   \<and> stores (snd (fixings_register demo_env ''libor'' (Atom ANone) empty_world))
        ''fixings'' ''libor'' = Some (Atom ANone)
   \<and> heap (snd (fixings_register demo_env ''libor'' (Atom ANone) empty_world)) = []
   \<and> fst (insert_fixing ''libor'' (Date 2020 1 1) 1
            (snd (fixings_register demo_env ''libor'' (Atom ANone) empty_world)))
       = Inl PyTypeError"
  by (simp add: model_defs str_defs demo_env_def empty_world_def)

text \<open>
  Claim C9, amended. For every key that is not yet registered and whose fixings file does
  not exist, \<^verbatim>\<open>IndexFixingsManager.register(key, value)\<close> succeeds and its only effect is
  to store the given value under the key. When that value is a dictionary without the
  date \<open>d\<close> (an empty one, for instance) and the key is its own lower-cased form, a
  subsequent \<^verbatim>\<open>insert_fixing(key, d, v)\<close> succeeds and \<^verbatim>\<open>get_fixing(key, d)\<close> returns \<open>v\<close>.
\<close>

theorem fixings_register_without_file:
  assumes fresh: "stores w ''fixings'' key = None"
    and no_file: "csv_files env (path_join (fixing_path env) (lower key @ ''.csv'')) = None"
  shows "fixings_register env key val w = (Inr (), map_set ''fixings'' key val w)
     \<and> (lower key = key \<and> as_dict w val = Some (a, m) \<and> m (KDate d) = None \<longrightarrow>
          fst (insert_fixing key d v (map_set ''fixings'' key val w)) = Inr ()
        \<and> get_fixing key d (snd (insert_fixing key d v (map_set ''fixings'' key val w)))
            = Inr (AFloat v))"
proof -
  have run: "fixings_register env key val w = (Inr (), map_set ''fixings'' key val w)"
    using assms by (simp add: fixings_register_def base_register_def Let_def)
  have "fst (insert_fixing key d v (map_set ''fixings'' key val w)) = Inr ()
        \<and> get_fixing key d (snd (insert_fixing key d v (map_set ''fixings'' key val w)))
            = Inr (AFloat v)"
    if "lower key = key" and "as_dict w val = Some (a, m)" and "m (KDate d) = None"
    using that
    by (auto simp: insert_fixing_def get_fixing_def base_get_def map_set_def as_dict_def
          heap_get_def heap_set_def split: pyval.splits option.splits if_splits)
  with run show ?thesis by blast
qed

theorem fixings_register_without_file_witness:
  "stores series_world ''fixings'' ''libor'' = None
   \<and> csv_files demo_env (path_join (fixing_path demo_env) (lower ''libor'' @ ''.csv'')) = None
   \<and> lower ''libor'' = ''libor''
   \<and> as_dict series_world (Ref 0) = Some (0, Map.empty)
   \<and> fixings_register demo_env ''libor'' (Ref 0) series_world
       = (Inr (), map_set ''fixings'' ''libor'' (Ref 0) series_world)
   \<and> fst (insert_fixing ''libor'' (Date 2020 1 1) 1.25
            (map_set ''fixings'' ''libor'' (Ref 0) series_world)) = Inr ()
   \<and> get_fixing ''libor'' (Date 2020 1 1)
        (snd (insert_fixing ''libor'' (Date 2020 1 1) 1.25
               (map_set ''fixings'' ''libor'' (Ref 0) series_world)))
       = Inr (AFloat 1.25)"
proof -
  have h1: "stores series_world ''fixings'' ''libor'' = None"
    by (simp add: series_world_def)
  have h2: "csv_files demo_env (path_join (fixing_path demo_env) (lower ''libor'' @ ''.csv''))
              = None"
    by (simp add: demo_env_def str_defs)
  have h3: "lower ''libor'' = ''libor''"
    by (simp add: str_defs)
  have h4: "as_dict series_world (Ref 0) = Some (0, Map.empty)"
    by (simp add: as_dict_def heap_get_def series_world_def)
  show ?thesis
    using h1 h2 h3 h4
      fixings_register_without_file
        [OF h1 h2, where val = "Ref 0" and a = 0 and m = Map.empty
           and d = "Date 2020 1 1" and v = "1.25"]
    by simp
qed

section \<open>The registries of the empty namespace\<close>

text \<open>
  Claim C10. \<^verbatim>\<open>DataConventionRegFunction\<close> and \<^verbatim>\<open>DataIdentifierRegistry\<close> both pass the
  empty string as their namespace (lines 104 and 133), so under the singleton rule of
  the base class they share one store: once \<^verbatim>\<open>DataIdentifierRegistry().register(k, v)\<close>
  has succeeded, \<^verbatim>\<open>DataConventionRegFunction().register(k, f)\<close> fails with DuplicateKey
  and \<^verbatim>\<open>DataConventionRegFunction().get(k)\<close> returns \<open>v\<close>.
\<close>

theorem empty_namespace_shared:
  assumes registered: "fst (identifier_register k v w) = Inr ()"
  shows "fst (regfunction_register k f (snd (identifier_register k v w))) = Inl DuplicateKey
       \<and> fst (regfunction_get (AStr k) (snd (identifier_register k v w))) = Inr v"
proof -
  have fresh: "stores w '''' k = None"
    using registered
    by (auto simp: identifier_register_def base_register_def split: if_splits)
  then have after: "stores (snd (identifier_register k v w)) '''' k = Some v"
    by (simp add: identifier_register_def base_register_def map_set_def)
  then show ?thesis
    by (simp add: regfunction_register_def regfunction_get_def base_register_def base_get_def)
qed

theorem empty_namespace_shared_witness:
  "fst (identifier_register ''USD'' (Atom (AStr ''usd-id'')) empty_world) = Inr ()
   \<and> fst (regfunction_register ''USD'' (Func (\<lambda>k d. Inr k))
            (snd (identifier_register ''USD'' (Atom (AStr ''usd-id'')) empty_world)))
       = Inl DuplicateKey
   \<and> fst (regfunction_get (AStr ''USD'')
            (snd (identifier_register ''USD'' (Atom (AStr ''usd-id'')) empty_world)))
       = Inr (Atom (AStr ''usd-id''))"
proof -
  have h: "fst (identifier_register ''USD'' (Atom (AStr ''usd-id'')) empty_world) = Inr ()"
    by (simp add: identifier_register_def base_register_def map_set_def empty_world_def)
  show ?thesis
    using h empty_namespace_shared [OF h, where f = "Func (\<lambda>k d. Inr k)"]
    by simp
qed

end
